theory Spec2Isabelle
  imports Complex_Main
begin

section \<open>JavaScript values as the dashboard reads them\<close>

text \<open>
  The React client receives the KPI response as parsed JSON and reads it with property
  access, \<open>||\<close> defaults and strict equality. The leaves of that JSON are modelled
  as JavaScript primitives. Numbers are idealised: a finite double is a real, the two
  zeros are one, and the three non-finite values are kept apart because truthiness and
  \<open>isNaN\<close> distinguish them. No arithmetic is done on them.
\<close>

datatype number = Fin real | NaN | PosInf | NegInf

datatype jsval = Undefined | Null | Bool bool | Num number | Str string

text \<open>The only exception the modelled code can raise (\<open>x.toFixed is not a function\<close>).\<close>

datatype error = TypeError

text \<open>ToBoolean of ECMAScript: what \<open>||\<close>, \<open>!\<close> and \<open>? :\<close> test.\<close>

fun truthy :: "jsval \<Rightarrow> bool" where
  "truthy Undefined = False"
| "truthy Null = False"
| "truthy (Bool b) = b"
| "truthy (Num n) = (n \<noteq> NaN \<and> n \<noteq> Fin 0)"
| "truthy (Str s) = (s \<noteq> [])"

text \<open>\<open>a || b\<close>: the left operand when it is truthy, the right one otherwise.\<close>

definition js_or :: "jsval \<Rightarrow> jsval \<Rightarrow> jsval" where
  "js_or a b = (if truthy a then a else b)"

text \<open>
  A JSON object is a finite map from property names to values; reading a property that
  the object does not have yields \<open>undefined\<close>.
\<close>

type_synonym obj = "string \<Rightarrow> jsval option"

definition field :: "obj \<Rightarrow> string \<Rightarrow> jsval" where
  "field ob k = (case ob k of None \<Rightarrow> Undefined | Some v \<Rightarrow> v)"

text \<open>
  The result of a number-formatting builtin is kept symbolic: which builtin ran on
  which value. \<open>toLocaleString\<close> exists on every value but \<open>undefined\<close> and
  \<open>null\<close>; \<open>toFixed\<close> exists on numbers only, and calling it on anything else
  raises a TypeError.
\<close>

datatype cell = LocaleString jsval | Fixed nat number

fun toLocaleString :: "jsval \<Rightarrow> error + cell" where
  "toLocaleString Undefined = Inl TypeError"
| "toLocaleString Null = Inl TypeError"
| "toLocaleString v = Inr (LocaleString v)"

fun toFixed :: "nat \<Rightarrow> jsval \<Rightarrow> error + cell" where
  "toFixed d (Num n) = Inr (Fixed d n)"
| "toFixed d v = Inl TypeError"

section \<open>The KPI response (\<open>kpiData\<close> of DashboardPage)\<close>

text \<open>
  The page reads \<open>kpiData.key_metrics\<close>, \<open>kpiData.google_ads\<close> and
  \<open>kpiData.meta_ads\<close>, and of a source its \<open>campaigns\<close> and
  \<open>historical_data\<close>. A property that is absent (or \<open>null\<close>) is \<open>None\<close>;
  \<open>kpiData\<close> itself is \<open>None\<close> until a response has been stored.
  The \<open>analytics\<close> source is part of the response but is never read by the page.
\<close>

record source =
  campaigns :: "obj list option"
  historical_data :: "obj list option"

record kpi =
  key_metrics :: "obj option"
  google_ads :: "source option"
  meta_ads :: "source option"
  analytics :: "source option"

text \<open>\<open>xs || []\<close> for a list that may be absent.\<close>

definition or_empty :: "'a list option \<Rightarrow> 'a list" where
  "or_empty xs = (case xs of None \<Rightarrow> [] | Some ys \<Rightarrow> ys)"

section \<open>DashboardPage: the campaign table\<close>

text \<open>
  \<open>{...campaign, platform: p, cost: campaign.cost || campaign.spend || 0}\<close>
\<close>

definition withPlatform :: "string \<Rightarrow> obj \<Rightarrow> obj" where
  "withPlatform p campaign =
     campaign(''platform'' \<mapsto> Str p,
              ''cost'' \<mapsto> js_or (js_or (field campaign ''cost'') (field campaign ''spend'')) (Num (Fin 0)))"

text \<open>\<open>(kpiData?.google_ads?.campaigns || []).map(...)\<close>, and the same for Meta Ads.\<close>

definition googleAdsCampaigns :: "kpi option \<Rightarrow> obj list" where
  "googleAdsCampaigns kpiData =
     map (withPlatform ''Google Ads'')
       (or_empty (Option.bind (Option.bind kpiData google_ads) campaigns))"

definition metaAdsCampaigns :: "kpi option \<Rightarrow> obj list" where
  "metaAdsCampaigns kpiData =
     map (withPlatform ''Meta Ads'')
       (or_empty (Option.bind (Option.bind kpiData meta_ads) campaigns))"

definition apiCampaigns :: "kpi option \<Rightarrow> obj list" where
  "apiCampaigns kpiData = googleAdsCampaigns kpiData @ metaAdsCampaigns kpiData"

text \<open>
  The hard-coded demo campaigns. Each name starts with an emoji, written here as its
  UTF-8 bytes.
\<close>

definition mockCampaigns :: "obj list" where
  "mockCampaigns =
    [ map_of [(''name'', Str ([CHR 0xF0, CHR 0x9F, CHR 0x8E, CHR 0xAF] @ '' Brand Awareness Campaign'')),
              (''spend'', Num (Fin 2485.67)), (''clicks'', Num (Fin 312)),
              (''impressions'', Num (Fin 8945)), (''conversions'', Num (Fin 28)),
              (''ctr'', Num (Fin 3.49)), (''status'', Str ''ENABLED'')],
      map_of [(''name'', Str ([CHR 0xF0, CHR 0x9F, CHR 0x9A, CHR 0x80] @ '' Product Launch Campaign'')),
              (''spend'', Num (Fin 1876.23)), (''clicks'', Num (Fin 245)),
              (''impressions'', Num (Fin 7256)), (''conversions'', Num (Fin 19)),
              (''ctr'', Num (Fin 3.38)), (''status'', Str ''ENABLED'')],
      map_of [(''name'', Str ([CHR 0xF0, CHR 0x9F, CHR 0x94, CHR 0x84] @ '' Retargeting Campaign'')),
              (''spend'', Num (Fin 892.45)), (''clicks'', Num (Fin 156)),
              (''impressions'', Num (Fin 3890)), (''conversions'', Num (Fin 22)),
              (''ctr'', Num (Fin 4.01)), (''status'', Str ''ENABLED'')],
      map_of [(''name'', Str ([CHR 0xF0, CHR 0x9F, CHR 0x8F, CHR 0xB7, CHR 0xEF, CHR 0xB8, CHR 0x8F]
                               @ '' Black Friday Sale'')),
              (''spend'', Num (Fin 3254.89)), (''clicks'', Num (Fin 423)),
              (''impressions'', Num (Fin 12456)), (''conversions'', Num (Fin 67)),
              (''ctr'', Num (Fin 3.40)), (''status'', Str ''PAUSED'')],
      map_of [(''name'', Str ([CHR 0xF0, CHR 0x9F, CHR 0x93, CHR 0xB1] @ '' Mobile App Install'')),
              (''spend'', Num (Fin 567.34)), (''clicks'', Num (Fin 89)),
              (''impressions'', Num (Fin 2134)), (''conversions'', Num (Fin 12)),
              (''ctr'', Num (Fin 4.17)), (''status'', Str ''ENABLED'')],
      map_of [(''name'', Str ([CHR 0xF0, CHR 0x9F, CHR 0x8C, CHR 0x9F] @ '' Holiday Promotion'')),
              (''spend'', Num (Fin 1456.78)), (''clicks'', Num (Fin 198)),
              (''impressions'', Num (Fin 5432)), (''conversions'', Num (Fin 31)),
              (''ctr'', Num (Fin 3.64)), (''status'', Str ''PAUSED'')] ]"

text \<open>\<open>apiCampaigns.length > 0 ? apiCampaigns : mockCampaigns\<close>\<close>

definition campaignsToShow :: "kpi option \<Rightarrow> obj list" where
  "campaignsToShow kpiData =
     (if length (apiCampaigns kpiData) > 0 then apiCampaigns kpiData else mockCampaigns)"

text \<open>\<open>apiCampaigns.length === 0\<close>\<close>

definition isUsingMockData :: "kpi option \<Rightarrow> bool" where
  "isUsingMockData kpiData = (length (apiCampaigns kpiData) = 0)"

text \<open>
  The status badge of a row: its background colour and its text
  (\<open>campaign.status || 'UNKNOWN'\<close>).
\<close>

record badge =
  badge_bg :: string
  badge_text :: jsval

definition statusBadge :: "obj \<Rightarrow> badge" where
  "statusBadge campaign =
     \<lparr> badge_bg = (if field campaign ''status'' = Str ''ENABLED''
                       \<or> field campaign ''status'' = Str ''ACTIVE''
                    then ''#48bb78'' else ''#f56565''),
       badge_text = js_or (field campaign ''status'') (Str ''UNKNOWN'') \<rparr>"

definition platformBadge :: "obj \<Rightarrow> badge" where
  "platformBadge campaign =
     \<lparr> badge_bg = (if field campaign ''platform'' = Str ''Google Ads''
                    then ''#4285f4'' else ''#1877f2''),
       badge_text = js_or (field campaign ''platform'') (Str ''Unknown'') \<rparr>"

text \<open>
  One \<open><tr>\<close> of the table. The cells are evaluated in document order, and the first
  builtin that raises aborts the row (and with it the render of the page).
\<close>

record row =
  name_cell :: jsval
  platform_cell :: badge
  spend_cell :: cell
  clicks_cell :: cell
  ctr_cell :: cell
  conversions_cell :: cell
  status_cell :: badge

definition renderRow :: "obj \<Rightarrow> error + row" where
  "renderRow campaign =
     (case toLocaleString (js_or (js_or (field campaign ''cost'') (field campaign ''spend'')) (Num (Fin 0))) of
        Inl e \<Rightarrow> Inl e
      | Inr spend \<Rightarrow>
     (case toLocaleString (js_or (field campaign ''clicks'') (Num (Fin 0))) of
        Inl e \<Rightarrow> Inl e
      | Inr clicks \<Rightarrow>
     (case toFixed 2 (js_or (field campaign ''ctr'') (Num (Fin 0))) of
        Inl e \<Rightarrow> Inl e
      | Inr ctr \<Rightarrow>
     (case toLocaleString (js_or (field campaign ''conversions'') (Num (Fin 0))) of
        Inl e \<Rightarrow> Inl e
      | Inr conversions \<Rightarrow>
          Inr \<lparr> name_cell = field campaign ''name'',
                platform_cell = platformBadge campaign,
                spend_cell = spend,
                clicks_cell = clicks,
                ctr_cell = ctr,
                conversions_cell = conversions,
                status_cell = statusBadge campaign \<rparr>))))"

text \<open>\<open>campaignsToShow.map(...)\<close>: every row, or the first exception.\<close>

fun renderRows :: "obj list \<Rightarrow> error + row list" where
  "renderRows [] = Inr []"
| "renderRows (c # cs) =
     (case renderRow c of
        Inl e \<Rightarrow> Inl e
      | Inr r \<Rightarrow> (case renderRows cs of Inl e \<Rightarrow> Inl e | Inr rs \<Rightarrow> Inr (r # rs)))"

text \<open>
  The table block: the "Demo Data" notice (\<open>isUsingMockData && ...\<close>) and the rows.
  The block is rendered for the admin role only
  (\<open>userData?.role === 'admin' && ...\<close>).
\<close>

record table_view =
  demo_notice :: bool
  table_rows :: "row list"

definition campaignTable :: "kpi option \<Rightarrow> error + table_view" where
  "campaignTable kpiData =
     (case renderRows (campaignsToShow kpiData) of
        Inl e \<Rightarrow> Inl e
      | Inr rs \<Rightarrow> Inr \<lparr> demo_notice = isUsingMockData kpiData, table_rows = rs \<rparr>)"

definition adminTable :: "jsval \<Rightarrow> kpi option \<Rightarrow> (error + table_view) option" where
  "adminTable role kpiData =
     (if role = Str ''admin'' then Some (campaignTable kpiData) else None)"

text \<open>Whether a value is a number (\<open>typeof v === 'number'\<close>).\<close>

fun is_number :: "jsval \<Rightarrow> bool" where
  "is_number (Num n) = True"
| "is_number v = False"

section \<open>DashboardPage: the role projection (\<open>getRoleMetrics\<close>)\<close>

text \<open>
  One metric card as \<open>getRoleMetrics\<close> builds it. \<open>val\<close> is the card's
  \<open>value\<close> property, \<open>mtype\<close> its \<open>type\<close>; icons are emoji, written as their
  UTF-8 bytes. \<open>change\<close> is the spread \<open>commonProps\<close>.
\<close>

record metric =
  title :: string
  val :: jsval
  mtype :: string
  icon :: string
  subtitle :: "string option"
  change :: real

text \<open>
  \<open>rnd\<close> is the value \<open>Math.random()\<close> returns in this call. The guard
  \<open>!data || !data.key_metrics\<close> returns the empty list; the \<open>switch\<close> compares
  the role with \<open>===\<close>, and every role but \<open>'finance'\<close> and \<open>'marketing'\<close>
  takes the \<open>default\<close> branch.
\<close>

definition getRoleMetrics :: "real \<Rightarrow> kpi option \<Rightarrow> jsval \<Rightarrow> metric list" where
  "getRoleMetrics rnd data role =
     (case Option.bind data key_metrics of
        None \<Rightarrow> []
      | Some metrics \<Rightarrow>
          (let commonProps = rnd * 20 - 10 in
           if role = Str ''finance'' then
             [ \<lparr> title = ''Total Ad Spend'', val = field metrics ''total_ad_spend'',
                 mtype = ''currency'', icon = [CHR 0xF0, CHR 0x9F, CHR 0x92, CHR 0xB0],
                 subtitle = None, change = commonProps \<rparr>,
               \<lparr> title = ''Total Revenue'', val = field metrics ''total_revenue'',
                 mtype = ''currency'', icon = [CHR 0xF0, CHR 0x9F, CHR 0x93, CHR 0x88],
                 subtitle = None, change = commonProps \<rparr>,
               \<lparr> title = ''ROAS'', val = field metrics ''roas'',
                 mtype = ''decimal'', icon = [CHR 0xF0, CHR 0x9F, CHR 0x8E, CHR 0xAF],
                 subtitle = Some ''Return on Ad Spend'', change = commonProps \<rparr>,
               \<lparr> title = ''Cost per Conversion'', val = field metrics ''cost_per_conversion'',
                 mtype = ''currency'', icon = [CHR 0xF0, CHR 0x9F, CHR 0x94, CHR 0x84],
                 subtitle = None, change = commonProps \<rparr> ]
           else if role = Str ''marketing'' then
             [ \<lparr> title = ''Total Impressions'', val = field metrics ''total_impressions'',
                 mtype = ''count'',
                 icon = [CHR 0xF0, CHR 0x9F, CHR 0x91, CHR 0x81, CHR 0xEF, CHR 0xB8, CHR 0x8F],
                 subtitle = None, change = commonProps \<rparr>,
               \<lparr> title = ''Total Clicks'', val = field metrics ''total_clicks'',
                 mtype = ''count'', icon = [CHR 0xF0, CHR 0x9F, CHR 0x91, CHR 0x86],
                 subtitle = None, change = commonProps \<rparr>,
               \<lparr> title = ''Click-Through Rate'', val = field metrics ''ctr'',
                 mtype = ''percentage'', icon = [CHR 0xF0, CHR 0x9F, CHR 0x93, CHR 0x8A],
                 subtitle = None, change = commonProps \<rparr>,
               \<lparr> title = ''Total Sessions'', val = field metrics ''total_sessions'',
                 mtype = ''count'', icon = [CHR 0xF0, CHR 0x9F, CHR 0x8C, CHR 0x90],
                 subtitle = None, change = commonProps \<rparr>,
               \<lparr> title = ''Bounce Rate'', val = field metrics ''bounce_rate'',
                 mtype = ''percentage'', icon = [CHR 0xF0, CHR 0x9F, CHR 0x8F, CHR 0x83],
                 subtitle = None, change = commonProps \<rparr>,
               \<lparr> title = ''Conversion Rate'', val = field metrics ''conversion_rate'',
                 mtype = ''percentage'', icon = [CHR 0xE2, CHR 0x9C, CHR 0x85],
                 subtitle = None, change = commonProps \<rparr> ]
           else
             [ \<lparr> title = ''Total Ad Spend'', val = field metrics ''total_ad_spend'',
                 mtype = ''currency'', icon = [CHR 0xF0, CHR 0x9F, CHR 0x92, CHR 0xB0],
                 subtitle = None, change = commonProps \<rparr>,
               \<lparr> title = ''Total Revenue'', val = field metrics ''total_revenue'',
                 mtype = ''currency'', icon = [CHR 0xF0, CHR 0x9F, CHR 0x93, CHR 0x88],
                 subtitle = None, change = commonProps \<rparr>,
               \<lparr> title = ''Total Impressions'', val = field metrics ''total_impressions'',
                 mtype = ''count'',
                 icon = [CHR 0xF0, CHR 0x9F, CHR 0x91, CHR 0x81, CHR 0xEF, CHR 0xB8, CHR 0x8F],
                 subtitle = None, change = commonProps \<rparr>,
               \<lparr> title = ''Total Clicks'', val = field metrics ''total_clicks'',
                 mtype = ''count'', icon = [CHR 0xF0, CHR 0x9F, CHR 0x91, CHR 0x86],
                 subtitle = None, change = commonProps \<rparr>,
               \<lparr> title = ''Total Sessions'', val = field metrics ''total_sessions'',
                 mtype = ''count'', icon = [CHR 0xF0, CHR 0x9F, CHR 0x8C, CHR 0x90],
                 subtitle = None, change = commonProps \<rparr>,
               \<lparr> title = ''ROAS'', val = field metrics ''roas'',
                 mtype = ''decimal'', icon = [CHR 0xF0, CHR 0x9F, CHR 0x8E, CHR 0xAF],
                 subtitle = Some ''Return on Ad Spend'', change = commonProps \<rparr> ]))"

section \<open>DashboardPage: the charts\<close>

text \<open>
  \<open>Array.prototype.slice(start)\<close> with one argument: a negative \<open>start\<close> counts
  from the end and is clamped at the first element, a positive one is clamped at the
  length.
\<close>

definition slice_from :: "int \<Rightarrow> 'a list \<Rightarrow> 'a list" where
  "slice_from start xs =
     (let len = int (length xs);
          k = (if start < 0 then max (len + start) 0 else min start len)
      in drop (nat k) xs)"

text \<open>\<open>kpiData?.google_ads?.historical_data || []\<close>\<close>

definition chartData :: "kpi option \<Rightarrow> obj list" where
  "chartData kpiData = or_empty (Option.bind (Option.bind kpiData google_ads) historical_data)"

text \<open>\<open>chartData.slice(-30).reverse()\<close>\<close>

definition last30Days :: "kpi option \<Rightarrow> obj list" where
  "last30Days kpiData = rev (slice_from (- 30) (chartData kpiData))"

text \<open>
  A \<open>CampaignChart\<close> element with the props the page passes. A label is
  \<open>new Date(item.date).toLocaleDateString()\<close>, kept symbolic.
\<close>

datatype label = LocaleDateString jsval

record chart =
  chart_data :: "obj list"
  chart_labels :: "label list"
  chart_title :: string
  chart_type :: string
  dataKey :: string
  color :: string
  yAxisLabel :: string

definition dateLabels :: "obj list \<Rightarrow> label list" where
  "dateLabels items = map (\<lambda>item. LocaleDateString (field item ''date'')) items"

text \<open>The charts section: which charts the page renders for a role, in document order.\<close>

definition charts :: "jsval \<Rightarrow> kpi option \<Rightarrow> chart list" where
  "charts role kpiData =
     (if role = Str ''admin'' \<or> role = Str ''finance'' then
        [ \<lparr> chart_data = last30Days kpiData, chart_labels = dateLabels (last30Days kpiData),
            chart_title = ''Daily Ad Spend'', chart_type = ''line'', dataKey = ''spend'',
            color = ''#f56565'', yAxisLabel = ''Amount ()'' \<rparr> ]
      else [])
     @ (if role = Str ''admin'' \<or> role = Str ''marketing'' then
        [ \<lparr> chart_data = last30Days kpiData, chart_labels = dateLabels (last30Days kpiData),
            chart_title = ''Daily Clicks'', chart_type = ''line'', dataKey = ''clicks'',
            color = ''#48bb78'', yAxisLabel = ''Clicks'' \<rparr> ]
      else [])
     @ (if role = Str ''marketing'' then
        [ \<lparr> chart_data = last30Days kpiData, chart_labels = dateLabels (last30Days kpiData),
            chart_title = ''Daily Impressions'', chart_type = ''bar'', dataKey = ''impressions'',
            color = ''#63b3ed'', yAxisLabel = ''Impressions'' \<rparr> ]
      else [])
     @ [ \<lparr> chart_data = last30Days kpiData, chart_labels = dateLabels (last30Days kpiData),
           chart_title = ''Daily Conversions'', chart_type = ''bar'', dataKey = ''conversions'',
           color = ''#ed8936'', yAxisLabel = ''Conversions'' \<rparr> ]"

section \<open>MetricCard: \<open>formatValue\<close>\<close>

text \<open>
  The \<open>value\<close> prop of a MetricCard is whatever the response holds under a metric's
  name, so \<open>formatValue\<close> is modelled on every JSON value: a primitive, an array,
  or a plain object given by its own properties (the last of two equal keys wins in
  \<open>JSON.parse\<close>; only the presence of a key matters below).
\<close>

datatype json = Prim jsval | Array "json list" | Object "(string \<times> json) list"

text \<open>The white space characters of ECMAScript (WhiteSpace and LineTerminator), in UTF-8.\<close>

definition whiteSpace :: "string list" where
  "whiteSpace =
     [ [CHR 0x09], [CHR 0x0A], [CHR 0x0B], [CHR 0x0C], [CHR 0x0D], [CHR 0x20],
       [CHR 0xC2, CHR 0xA0], [CHR 0xE1, CHR 0x9A, CHR 0x80],
       [CHR 0xE2, CHR 0x80, CHR 0x80], [CHR 0xE2, CHR 0x80, CHR 0x81],
       [CHR 0xE2, CHR 0x80, CHR 0x82], [CHR 0xE2, CHR 0x80, CHR 0x83],
       [CHR 0xE2, CHR 0x80, CHR 0x84], [CHR 0xE2, CHR 0x80, CHR 0x85],
       [CHR 0xE2, CHR 0x80, CHR 0x86], [CHR 0xE2, CHR 0x80, CHR 0x87],
       [CHR 0xE2, CHR 0x80, CHR 0x88], [CHR 0xE2, CHR 0x80, CHR 0x89],
       [CHR 0xE2, CHR 0x80, CHR 0x8A], [CHR 0xE2, CHR 0x80, CHR 0xA8],
       [CHR 0xE2, CHR 0x80, CHR 0xA9], [CHR 0xE2, CHR 0x80, CHR 0xAF],
       [CHR 0xE2, CHR 0x81, CHR 0x9F], [CHR 0xE3, CHR 0x80, CHR 0x80],
       [CHR 0xEF, CHR 0xBB, CHR 0xBF] ]"

text \<open>
  Dropping leading (trailing) white space; \<open>fuel\<close> bounds the number of characters
  dropped, and the length of the string is always enough.
\<close>

fun trim_fuel :: "nat \<Rightarrow> string \<Rightarrow> string" where
  "trim_fuel 0 s = s"
| "trim_fuel (Suc fuel) s =
     (case find (\<lambda>w. take (length w) s = w) whiteSpace of
        None \<Rightarrow> s
      | Some w \<Rightarrow> trim_fuel fuel (drop (length w) s))"

definition trimStart :: "string \<Rightarrow> string" where
  "trimStart s = trim_fuel (length s) s"

fun trim_end_fuel :: "nat \<Rightarrow> string \<Rightarrow> string" where
  "trim_end_fuel 0 s = s"
| "trim_end_fuel (Suc fuel) s =
     (case find (\<lambda>w. length w \<le> length s \<and> drop (length s - length w) s = w) whiteSpace of
        None \<Rightarrow> s
      | Some w \<Rightarrow> trim_end_fuel fuel (take (length s - length w) s))"

definition trimEnd :: "string \<Rightarrow> string" where
  "trimEnd s = trim_end_fuel (length s) s"

definition is_digit :: "char \<Rightarrow> bool" where
  "is_digit c = (c \<in> set ''0123456789'')"

text \<open>
  The length of an exponent part \<open>(e|E) [+-] digits\<close> at the head of the string, 0
  when the head is not a complete exponent part.
\<close>

definition exponent_len :: "string \<Rightarrow> nat" where
  "exponent_len s =
     (case s of
        [] \<Rightarrow> 0
      | c # r \<Rightarrow>
          if c = CHR ''e'' \<or> c = CHR ''E'' then
            (let sign_len = (case r of
                               [] \<Rightarrow> 0
                             | d # t \<Rightarrow> if d = CHR ''+'' \<or> d = CHR ''-'' then 1 else 0);
                 ds = takeWhile is_digit (drop sign_len r)
             in if ds = [] then 0 else 1 + sign_len + length ds)
          else 0)"

text \<open>
  The length of the longest prefix that is an unsigned decimal literal
  (\<open>Infinity | digits [. [digits]] [exponent] | . digits [exponent]\<close>), if there is one.
\<close>

definition unsigned_len :: "string \<Rightarrow> nat option" where
  "unsigned_len s =
     (if take 8 s = ''Infinity'' then Some 8
      else
        (let ip = takeWhile is_digit s; r1 = dropWhile is_digit s in
         case r1 of
           [] \<Rightarrow> if ip = [] then None else Some (length ip)
         | c # r2 \<Rightarrow>
             if c = CHR ''.'' then
               (let fp = takeWhile is_digit r2; r3 = dropWhile is_digit r2 in
                if ip = [] \<and> fp = [] then None
                else Some (length ip + 1 + length fp + exponent_len r3))
             else if ip = [] then None
             else Some (length ip + exponent_len r1)))"

text \<open>The longest prefix that is a decimal literal with an optional sign.\<close>

definition decimal_prefix :: "string \<Rightarrow> string option" where
  "decimal_prefix s =
     (case s of
        [] \<Rightarrow> None
      | c # r \<Rightarrow>
          if c = CHR ''+'' \<or> c = CHR ''-'' then map_option (\<lambda>n. take (Suc n) s) (unsigned_len r)
          else map_option (\<lambda>n. take n s) (unsigned_len s))"

text \<open>
  \<open>parseFloat\<close> of ECMAScript on a string given as its UTF-8 bytes: leading white
  space is skipped and the longest prefix that is a decimal literal is read. \<open>None\<close>
  stands for the result \<open>NaN\<close> (there is no such prefix); \<open>Some lit\<close> stands for
  the Number value of the literal \<open>lit\<close>, which is never \<open>NaN\<close>. That value is the
  literal's decimal value rounded to a double, \<open>Infinity\<close> on overflow and 0 on
  underflow, and for more than 20 significant digits ECMAScript leaves the rounding to
  the implementation; the model keeps the literal and does not compute the value.
\<close>

definition parseFloat :: "string \<Rightarrow> string option" where
  "parseFloat s = decimal_prefix (trimStart s)"

text \<open>
  Whether \<open>StringToNumber\<close> of ECMAScript gives a number other than \<open>NaN\<close>: after
  trimming white space at both ends the string is empty (the number 0), a binary, octal
  or hexadecimal integer literal, or as a whole a decimal literal.
\<close>

definition non_decimal_literal :: "string \<Rightarrow> bool" where
  "non_decimal_literal s =
     (case s of
        z # c # ds \<Rightarrow>
          z = CHR ''0'' \<and> ds \<noteq> [] \<and>
          ((c \<in> set ''bB'' \<and> list_all (\<lambda>d. d \<in> set ''01'') ds)
           \<or> (c \<in> set ''oO'' \<and> list_all (\<lambda>d. d \<in> set ''01234567'') ds)
           \<or> (c \<in> set ''xX'' \<and> list_all (\<lambda>d. d \<in> set ''0123456789abcdefABCDEF'') ds))
      | _ \<Rightarrow> False)"

definition is_numeric_string :: "string \<Rightarrow> bool" where
  "is_numeric_string s =
     (let t = trimEnd (trimStart s)
      in t = [] \<or> non_decimal_literal t \<or> decimal_prefix t = Some t)"

text \<open>
  Converting an array or object to a primitive (\<open>ToPrimitive\<close>, which \<open>isNaN\<close> and
  the \<open>Intl\<close> formatters apply). A plain object converts to \<open>'[object Object]'\<close>
  through \<open>Object.prototype.toString\<close>, unless it has an own property
  \<open>toString\<close>: a JSON value is not callable, \<open>Object.prototype.valueOf\<close> returns
  the object itself, and the conversion raises a TypeError. An array converts through
  \<open>join\<close>, which converts every element that is not \<open>null\<close> or \<open>undefined\<close>
  to a string, and so raises when one of them does.
\<close>

fun toString_raises :: "json \<Rightarrow> bool" where
  "toString_raises (Prim v) = False"
| "toString_raises (Array xs) = list_ex toString_raises xs"
| "toString_raises (Object kvs) = (''toString'' \<in> set (map fst kvs))"

text \<open>
  Whether the string an array element contributes to \<open>join\<close> converts to a number
  other than \<open>NaN\<close>, for a value whose conversion does not raise. \<open>null\<close> and
  \<open>undefined\<close> contribute the empty string (the number 0), a number its own text,
  a boolean \<open>'true'\<close> or \<open>'false'\<close>, an object \<open>'[object Object]'\<close>; an array
  contributes the join of its elements, which holds a comma as soon as there are two.
  For an array this is also whether \<open>isNaN\<close> of the array is false.
\<close>

fun element_is_numeric :: "json \<Rightarrow> bool" where
  "element_is_numeric (Prim Undefined) = True"
| "element_is_numeric (Prim Null) = True"
| "element_is_numeric (Prim (Bool b)) = False"
| "element_is_numeric (Prim (Num n)) = (n \<noteq> NaN)"
| "element_is_numeric (Prim (Str s)) = is_numeric_string s"
| "element_is_numeric (Array []) = True"
| "element_is_numeric (Array [x]) = element_is_numeric x"
| "element_is_numeric (Array (x # y # zs)) = False"
| "element_is_numeric (Object kvs) = False"

text \<open>
  The number a formatting builtin is applied to: a number that is known, the Number
  value \<open>parseFloat\<close> read from a literal, or the number an array converts to.
\<close>

datatype operand = Known number | ParsedFrom string | CoercedFrom json

text \<open>
  What \<open>formatValue\<close> returns: the literal \<open>'N/A'\<close>, its argument as it came, or the
  output of a formatting builtin, kept symbolic:
  \<^item> \<open>Currency0 n\<close>: \<open>Intl.NumberFormat('en-US', {style: 'currency', currency: 'USD',
    minimumFractionDigits: 0, maximumFractionDigits: 0}).format(n)\<close>;
  \<^item> \<open>Percent1 n\<close>: \<open>n.toFixed(1)\<close> followed by \<open>%\<close>;
  \<^item> \<open>Decimal2 n\<close>: \<open>n.toFixed(2)\<close>;
  \<^item> \<open>Grouped n\<close>: \<open>Intl.NumberFormat('en-US').format(n)\<close>.
\<close>

datatype formatted =
    NotAvailable
  | Unchanged json
  | Currency0 operand
  | Percent1 operand
  | Decimal2 operand
  | Grouped operand

text \<open>The \<open>switch (metricType)\<close> on a value that is a number.\<close>

definition formatNumber :: "operand \<Rightarrow> jsval \<Rightarrow> formatted" where
  "formatNumber n metricType =
     (if metricType = Str ''currency'' then Currency0 n
      else if metricType = Str ''percentage'' then Percent1 n
      else if metricType = Str ''decimal'' then Decimal2 n
      else Grouped n)"

text \<open>
  \<open>formatValue\<close>, by the type of \<open>val\<close>:
  \<^item> \<open>null\<close> and \<open>undefined\<close> return \<open>'N/A'\<close>;
  \<^item> a string is parsed (\<open>typeof val === 'string' ? parseFloat(val) : val\<close>), and
    returned as it came when the parse is \<open>NaN\<close>;
  \<^item> a number is returned as it came when it is \<open>NaN\<close>, and formatted otherwise;
  \<^item> a boolean is not a string, so \<open>numValue\<close> is the boolean itself;
    \<open>isNaN\<close> converts it to 1 or 0 and answers false. The \<open>Intl\<close> formatters
    convert it to that number too, but a boolean has no \<open>toFixed\<close> method, so the
    \<open>'percentage'\<close> and \<open>'decimal'\<close> branches raise a TypeError;
  \<^item> an array or object is not a string either. \<open>isNaN\<close> converts it to a
    primitive, which may raise; when the result is \<open>NaN\<close> the value is returned as it
    came (always so for an object); otherwise the value is an array, which the
    \<open>Intl\<close> formatters convert again, and which has no \<open>toFixed\<close> method.
\<close>

fun formatValue :: "json \<Rightarrow> jsval \<Rightarrow> error + formatted" where
  "formatValue (Prim Undefined) metricType = Inr NotAvailable"
| "formatValue (Prim Null) metricType = Inr NotAvailable"
| "formatValue (Prim (Str s)) metricType =
     (case parseFloat s of
        None \<Rightarrow> Inr (Unchanged (Prim (Str s)))
      | Some lit \<Rightarrow> Inr (formatNumber (ParsedFrom lit) metricType))"
| "formatValue (Prim (Num n)) metricType =
     (if n = NaN then Inr (Unchanged (Prim (Num n)))
      else Inr (formatNumber (Known n) metricType))"
| "formatValue (Prim (Bool b)) metricType =
     (if metricType = Str ''percentage'' \<or> metricType = Str ''decimal'' then Inl TypeError
      else Inr (formatNumber (Known (Fin (if b then 1 else 0))) metricType))"
| "formatValue (Array xs) metricType =
     (if toString_raises (Array xs) then Inl TypeError
      else if \<not> element_is_numeric (Array xs) then Inr (Unchanged (Array xs))
      else if metricType = Str ''percentage'' \<or> metricType = Str ''decimal'' then Inl TypeError
      else Inr (formatNumber (CoercedFrom (Array xs)) metricType))"
| "formatValue (Object kvs) metricType =
     (if toString_raises (Object kvs) then Inl TypeError
      else Inr (Unchanged (Object kvs)))"


section \<open>The backend: aggregation and cache\<close>

text \<open>
  Modelled from the spec: the Flask backend that aggregates the providers and caches the
  result (the Aggregator, its Cache and the provider adapters of sections 3 to 7 of the
  specification) is not among the source files; only its HTTP client
  (\<open>services/api.js\<close>) and the README's "in-memory caching with a 5-minute TTL" are.
  Every definition of this section follows the specification's words. Quantities are
  exact reals and time is in whole seconds.
\<close>

datatype agg_error = AllSourcesUnavailable | DivisionByZero

text \<open>
  Modelled from the spec: the combined totals the Aggregator computes its ratios from
  (section 4.2), the backend's aggregation code being absent.
\<close>

record totals =
  sum_ad_spend :: real
  sum_revenue :: real
  sum_impressions :: real
  sum_clicks :: real
  sum_conversions :: real
  sum_sessions :: real
  reported_bounce_rate :: real

text \<open>
  Modelled from the spec: \<open>KpiSnapshot.key_metrics\<close>, "a fixed mapping of derived
  totals" (section 3), the backend's snapshot type being absent.
\<close>

record KeyMetrics =
  total_ad_spend :: real
  total_revenue :: real
  total_impressions :: real
  total_clicks :: real
  total_sessions :: real
  roas :: real
  ctr :: real
  cost_per_conversion :: real
  bounce_rate :: real
  conversion_rate :: real

text \<open>
  Modelled from the spec: division as the backend's language performs it, failing on a
  zero divisor, and the guarded ratio of section 4.2 ("defined as 0 when" the
  denominator is 0), the backend's arithmetic being absent.
\<close>

definition divide :: "real \<Rightarrow> real \<Rightarrow> agg_error + real" where
  "divide x y = (if y = 0 then Inl DivisionByZero else Inr (x / y))"

definition guarded_ratio :: "real \<Rightarrow> real \<Rightarrow> real \<Rightarrow> agg_error + real" where
  "guarded_ratio x y scale =
     (if y = 0 then Inr 0
      else (case divide x y of Inl e \<Rightarrow> Inl e | Inr q \<Rightarrow> Inr (q * scale)))"

text \<open>
  Modelled from the spec: the derived ratios of section 4.2, the Aggregator's code being
  absent. \<open>ctr = total_clicks / total_impressions * 100\<close>,
  \<open>roas = total_revenue / total_ad_spend\<close>,
  \<open>cost_per_conversion = total_ad_spend / total_conversions\<close>,
  \<open>conversion_rate = total_conversions / total_clicks * 100\<close>, each 0 on a zero
  denominator; \<open>bounce_rate\<close> is the analytics source's reported value.
\<close>

definition derive :: "totals \<Rightarrow> agg_error + KeyMetrics" where
  "derive t =
     (case guarded_ratio (sum_clicks t) (sum_impressions t) 100 of
        Inl e \<Rightarrow> Inl e
      | Inr c \<Rightarrow>
     (case guarded_ratio (sum_revenue t) (sum_ad_spend t) 1 of
        Inl e \<Rightarrow> Inl e
      | Inr r \<Rightarrow>
     (case guarded_ratio (sum_ad_spend t) (sum_conversions t) 1 of
        Inl e \<Rightarrow> Inl e
      | Inr cpc \<Rightarrow>
     (case guarded_ratio (sum_conversions t) (sum_clicks t) 100 of
        Inl e \<Rightarrow> Inl e
      | Inr cr \<Rightarrow>
          Inr \<lparr> total_ad_spend = sum_ad_spend t,
                total_revenue = sum_revenue t,
                total_impressions = sum_impressions t,
                total_clicks = sum_clicks t,
                total_sessions = sum_sessions t,
                roas = r,
                ctr = c,
                cost_per_conversion = cpc,
                bounce_rate = reported_bounce_rate t,
                conversion_rate = cr \<rparr>))))"

text \<open>
  Modelled from the spec: the normalised record of one provider (\<open>SourceMetrics\<close>,
  section 3) reduced to its aggregate totals and its provenance tag, and the outcome of
  one fetch round over the three providers of section 2, \<open>None\<close> standing for a
  provider's hard failure ("the absence of a \<open>SourceMetrics\<close> for that provider",
  section 4.3). The provider adapters and the normaliser are absent from the sources.
\<close>

datatype provenance = Live | Simulated

record SourceMetrics =
  src_spend :: real
  src_revenue :: real
  src_impressions :: real
  src_clicks :: real
  src_conversions :: real
  src_sessions :: real
  src_bounce_rate :: real
  src_data_source :: provenance

record fetched =
  ads_a :: "SourceMetrics option"
  ads_b :: "SourceMetrics option"
  analytics_src :: "SourceMetrics option"

definition all_failed :: "fetched \<Rightarrow> bool" where
  "all_failed f = (ads_a f = None \<and> ads_b f = None \<and> analytics_src f = None)"

text \<open>
  Modelled from the spec: the combined totals, a failed source being omitted from them
  (section 7), and the bounce rate taken from the analytics source (section 4.2); the
  Aggregator's code is absent.
\<close>

definition present :: "fetched \<Rightarrow> SourceMetrics list" where
  "present f = List.map_filter id [ads_a f, ads_b f, analytics_src f]"

definition combine :: "fetched \<Rightarrow> totals" where
  "combine f =
     \<lparr> sum_ad_spend = sum_list (map src_spend (present f)),
       sum_revenue = sum_list (map src_revenue (present f)),
       sum_impressions = sum_list (map src_impressions (present f)),
       sum_clicks = sum_list (map src_clicks (present f)),
       sum_conversions = sum_list (map src_conversions (present f)),
       sum_sessions = sum_list (map src_sessions (present f)),
       reported_bounce_rate = (case analytics_src f of None \<Rightarrow> 0 | Some a \<Rightarrow> src_bounce_rate a) \<rparr>"

text \<open>
  Modelled from the spec: \<open>KpiSnapshot\<close> (section 3) and the merge of one fetch round
  into a snapshot, which fails with \<open>AllSourcesUnavailable\<close> when every provider
  failed (section 4.2); the Aggregator's code is absent.
\<close>

record KpiSnapshot =
  snap_key_metrics :: KeyMetrics
  per_source :: fetched
  snap_created_at :: int

definition aggregate :: "int \<Rightarrow> fetched \<Rightarrow> agg_error + KpiSnapshot" where
  "aggregate now f =
     (if all_failed f then Inl AllSourcesUnavailable
      else (case derive (combine f) of
              Inl e \<Rightarrow> Inl e
            | Inr km \<Rightarrow> Inr \<lparr> snap_key_metrics = km, per_source = f, snap_created_at = now \<rparr>))"

text \<open>
  Modelled from the spec: the Cache of section 4.1, the backend's cache being absent. The
  entry holds one snapshot with the time it was stored and the hit and miss counters;
  \<open>TTL\<close> is 5 minutes. \<open>get\<close> returns the entry while \<open>now - created_at < TTL\<close>
  and signals Empty (\<open>None\<close>) otherwise, leaving the cache as it is; \<open>put\<close>
  replaces the entry and resets \<open>created_at\<close>; \<open>clear\<close> empties it.
\<close>

record cache =
  entry :: "KpiSnapshot option"
  created_at :: int
  hit_count :: nat
  miss_count :: nat

definition TTL :: int where
  "TTL = 5 * 60"

definition empty_cache :: cache where
  "empty_cache = \<lparr> entry = None, created_at = 0, hit_count = 0, miss_count = 0 \<rparr>"

definition isExpired :: "int \<Rightarrow> cache \<Rightarrow> bool" where
  "isExpired now c = (now - created_at c \<ge> TTL)"

definition cache_get :: "int \<Rightarrow> cache \<Rightarrow> KpiSnapshot option \<times> cache" where
  "cache_get now c =
     (case entry c of
        None \<Rightarrow> (None, c)
      | Some s \<Rightarrow> if now - created_at c < TTL then (Some s, c) else (None, c))"

definition cache_put :: "int \<Rightarrow> KpiSnapshot \<Rightarrow> cache \<Rightarrow> cache" where
  "cache_put now s c = c\<lparr> entry := Some s, created_at := now \<rparr>"

definition cache_clear :: "cache \<Rightarrow> cache" where
  "cache_clear c = c\<lparr> entry := None \<rparr>"

record cache_stats =
  has_data :: bool
  age_seconds :: "int option"
  ttl_seconds :: int
  stat_hit_count :: nat
  stat_miss_count :: nat

definition stats :: "int \<Rightarrow> cache \<Rightarrow> cache_stats" where
  "stats now c =
     \<lparr> has_data = (entry c \<noteq> None),
       age_seconds = (case entry c of None \<Rightarrow> None | Some s \<Rightarrow> Some (now - created_at c)),
       ttl_seconds = TTL,
       stat_hit_count = hit_count c,
       stat_miss_count = miss_count c \<rparr>"

text \<open>
  Modelled from the spec: \<open>getSnapshot(forceRefresh)\<close> of section 4.2 with the
  total-failure fallback of sections 7 and 8, for one caller at a time; the Aggregator's
  code is absent. \<open>f\<close> is what the providers answer if this call fetches. A request
  that is not forced and finds a fresh entry is a hit; otherwise the providers are
  fetched, a successful merge is stored and returned, and a failed one falls back to the
  entry the cache still holds, failing only when there is none.
\<close>

definition getSnapshot ::
  "bool \<Rightarrow> int \<Rightarrow> fetched \<Rightarrow> cache \<Rightarrow> (agg_error + KpiSnapshot) \<times> cache" where
  "getSnapshot forceRefresh now f c =
     (case (if forceRefresh then None else fst (cache_get now c)) of
        Some s \<Rightarrow> (Inr s, c\<lparr> hit_count := hit_count c + 1 \<rparr>)
      | None \<Rightarrow>
          (let c1 = c\<lparr> miss_count := miss_count c + 1 \<rparr> in
           case aggregate now f of
             Inr s \<Rightarrow> (Inr s, cache_put now s c1)
           | Inl e \<Rightarrow>
               (case entry c1 of
                  Some stale \<Rightarrow> (Inr stale, c1)
                | None \<Rightarrow> (Inl e, c1))))"

text \<open>
  Modelled from the spec: the scenario example of section 8, an ads provider returning
  \<open>{spend: 100, revenue: 250}\<close> and the analytics provider returning
  \<open>{sessions: 1000, bounce_rate: 45.2}\<close> (every other field absent, hence 0, and
  the second ads provider failing), and the snapshot the Aggregator is expected to
  build from it at time 1000. \<open>no_fetch\<close> is a round in which every provider fails.
\<close>

definition scenario_fetch :: fetched where
  "scenario_fetch =
     \<lparr> ads_a = Some \<lparr> src_spend = 100, src_revenue = 250, src_impressions = 0, src_clicks = 0,
                       src_conversions = 0, src_sessions = 0, src_bounce_rate = 0,
                       src_data_source = Live \<rparr>,
       ads_b = None,
       analytics_src = Some \<lparr> src_spend = 0, src_revenue = 0, src_impressions = 0, src_clicks = 0,
                               src_conversions = 0, src_sessions = 1000, src_bounce_rate = 45.2,
                               src_data_source = Live \<rparr> \<rparr>"

definition scenario_snapshot :: KpiSnapshot where
  "scenario_snapshot =
     \<lparr> snap_key_metrics =
         \<lparr> total_ad_spend = 100, total_revenue = 250, total_impressions = 0, total_clicks = 0,
           total_sessions = 1000, roas = 2.5, ctr = 0, cost_per_conversion = 0,
           bounce_rate = 45.2, conversion_rate = 0 \<rparr>,
       per_source = scenario_fetch,
       snap_created_at = 1000 \<rparr>"

definition no_fetch :: fetched where
  "no_fetch = \<lparr> ads_a = None, ads_b = None, analytics_src = None \<rparr>"

section \<open>Properties of the campaign table\<close>

lemma toLocaleString_js_or_zero:
  "toLocaleString (js_or v (Num (Fin 0))) = Inr (LocaleString (js_or v (Num (Fin 0))))"
  by (cases v) (auto simp: js_or_def)

lemma toFixed_js_or_zero:
  "truthy v \<longrightarrow> is_number v \<Longrightarrow>
   \<exists>n. js_or v (Num (Fin 0)) = Num n \<and> toFixed d (js_or v (Num (Fin 0))) = Inr (Fixed d n)"
  by (cases v) (auto simp: js_or_def)

text \<open>
  The three \<open>toLocaleString\<close> cells never raise, whatever the record holds: their
  argument ends in \<open>|| 0\<close>, so it is never \<open>undefined\<close> or \<open>null\<close>. Only the
  \<open>toFixed\<close> of the CTR cell can.
\<close>

lemma renderRow_unfold:
  "renderRow c =
     (case toFixed 2 (js_or (field c ''ctr'') (Num (Fin 0))) of
        Inl e \<Rightarrow> Inl e
      | Inr x \<Rightarrow>
          Inr \<lparr> name_cell = field c ''name'',
                platform_cell = platformBadge c,
                spend_cell = LocaleString (js_or (js_or (field c ''cost'') (field c ''spend'')) (Num (Fin 0))),
                clicks_cell = LocaleString (js_or (field c ''clicks'') (Num (Fin 0))),
                ctr_cell = x,
                conversions_cell = LocaleString (js_or (field c ''conversions'') (Num (Fin 0))),
                status_cell = statusBadge c \<rparr>)"
  by (simp add: renderRow_def toLocaleString_js_or_zero split: sum.splits)

lemma js_or_absent: "c k = None \<Longrightarrow> js_or (field c k) b = b"
  by (simp add: field_def js_or_def)

text \<open>
  A row fails to render exactly when the record's \<open>ctr\<close> is a truthy value that is
  not a number (a non-empty string, or \<open>true\<close>): such a value has no \<open>toFixed\<close>.
\<close>

lemma renderRow_raises_iff:
  "renderRow c = Inl TypeError \<longleftrightarrow> truthy (field c ''ctr'') \<and> \<not> is_number (field c ''ctr'')"
  by (cases "field c ''ctr''") (simp_all add: renderRow_unfold js_or_def)

lemma withPlatform_platform: "withPlatform p c ''platform'' = Some (Str p)"
  by (simp add: withPlatform_def)

lemma withPlatform_cost:
  "withPlatform p c ''cost''
     = Some (js_or (js_or (field c ''cost'') (field c ''spend'')) (Num (Fin 0)))"
  by (simp add: withPlatform_def)

lemma withPlatform_other:
  "k \<noteq> ''platform'' \<Longrightarrow> k \<noteq> ''cost'' \<Longrightarrow> withPlatform p c k = c k"
  by (simp add: withPlatform_def)

text \<open>
  The table applies \<open>cost || spend || 0\<close> again to a record whose \<open>cost\<close> was
  already coerced; the second application changes nothing.
\<close>

lemma js_or_cost_idem:
  "js_or (js_or (js_or (js_or a b) (Num (Fin 0))) b) (Num (Fin 0)) = js_or (js_or a b) (Num (Fin 0))"
  by (cases "truthy a"; cases "truthy b") (simp_all add: js_or_def)

lemma renderRows_total:
  "(\<forall>c \<in> set cs. truthy (field c ''ctr'') \<longrightarrow> is_number (field c ''ctr''))
   \<Longrightarrow> \<exists>rs. renderRows cs = Inr rs \<and> length rs = length cs"
proof (induction cs)
  case Nil
  then show ?case by simp
next
  case (Cons c cs)
  then obtain rs where rs: "renderRows cs = Inr rs" "length rs = length cs" by auto
  from Cons.prems have "truthy (field c ''ctr'') \<longrightarrow> is_number (field c ''ctr'')" by simp
  from toFixed_js_or_zero[OF this, of 2] obtain r where "renderRow c = Inr r"
    by (auto simp: renderRow_unfold)
  with rs show ?case by simp
qed

text \<open>
  Claim C5, as amended. The records are campaign objects whose fields hold JSON
  primitives or are absent. For every such record whose \<open>ctr\<close>, when it is truthy, is
  a number, the table renders a row, whichever fields are present: the spend cell shows
  \<open>cost\<close>, falling back to \<open>spend\<close> and then to 0; the clicks, CTR and conversions
  cells show the field, or 0 when it is absent. The coercion that tags a provider
  campaign sets its \<open>cost\<close> to \<open>cost\<close>, falling back to \<open>spend\<close> and then to 0
  (so to the \<open>spend\<close> when \<open>cost\<close> is absent, and to 0 when both are), sets its
  \<open>platform\<close>, and leaves every other field as it is; the tagged record renders the
  same four cells. A list of such records renders one row for each. Nothing is promised
  for a record whose \<open>ctr\<close> is truthy and not a number.
\<close>

theorem renderRow_total:
  assumes "truthy (field c ''ctr'') \<longrightarrow> is_number (field c ''ctr'')"
  shows "(\<exists>r. renderRow c = Inr r
     \<and> spend_cell r = LocaleString (js_or (js_or (field c ''cost'') (field c ''spend'')) (Num (Fin 0)))
     \<and> clicks_cell r = LocaleString (js_or (field c ''clicks'') (Num (Fin 0)))
     \<and> (\<exists>n. js_or (field c ''ctr'') (Num (Fin 0)) = Num n \<and> ctr_cell r = Fixed 2 n)
     \<and> conversions_cell r = LocaleString (js_or (field c ''conversions'') (Num (Fin 0)))
     \<and> (c ''cost'' = None \<longrightarrow> spend_cell r = LocaleString (js_or (field c ''spend'') (Num (Fin 0))))
     \<and> (c ''cost'' = None \<longrightarrow> c ''spend'' = None \<longrightarrow> spend_cell r = LocaleString (Num (Fin 0)))
     \<and> (c ''clicks'' = None \<longrightarrow> clicks_cell r = LocaleString (Num (Fin 0)))
     \<and> (c ''ctr'' = None \<longrightarrow> ctr_cell r = Fixed 2 (Fin 0))
     \<and> (c ''conversions'' = None \<longrightarrow> conversions_cell r = LocaleString (Num (Fin 0))))
   \<and> field (withPlatform p c) ''cost''
        = js_or (js_or (field c ''cost'') (field c ''spend'')) (Num (Fin 0))
   \<and> (c ''cost'' = None \<longrightarrow>
        field (withPlatform p c) ''cost'' = js_or (field c ''spend'') (Num (Fin 0)))
   \<and> (c ''cost'' = None \<longrightarrow> c ''spend'' = None \<longrightarrow>
        field (withPlatform p c) ''cost'' = Num (Fin 0))
   \<and> field (withPlatform p c) ''platform'' = Str p
   \<and> (\<forall>k. k \<noteq> ''platform'' \<and> k \<noteq> ''cost'' \<longrightarrow> withPlatform p c k = c k)
   \<and> (\<exists>r'. renderRow (withPlatform p c) = Inr r'
        \<and> spend_cell r' = LocaleString (js_or (js_or (field c ''cost'') (field c ''spend'')) (Num (Fin 0)))
        \<and> clicks_cell r' = LocaleString (js_or (field c ''clicks'') (Num (Fin 0)))
        \<and> (\<exists>n. js_or (field c ''ctr'') (Num (Fin 0)) = Num n \<and> ctr_cell r' = Fixed 2 n)
        \<and> conversions_cell r' = LocaleString (js_or (field c ''conversions'') (Num (Fin 0))))
   \<and> ((\<forall>c' \<in> set cs. truthy (field c' ''ctr'') \<longrightarrow> is_number (field c' ''ctr'')) \<longrightarrow>
        (\<exists>rs. renderRows cs = Inr rs \<and> length rs = length cs))"
proof -
  from toFixed_js_or_zero[OF assms, of 2] obtain n where
    n: "js_or (field c ''ctr'') (Num (Fin 0)) = Num n"
       "toFixed 2 (js_or (field c ''ctr'') (Num (Fin 0))) = Inr (Fixed 2 n)"
    by blast
  have ctr0: "c ''ctr'' = None \<Longrightarrow> n = Fin 0"
    using n(1) by (simp add: js_or_absent)
  have raw: "\<exists>r. renderRow c = Inr r
     \<and> spend_cell r = LocaleString (js_or (js_or (field c ''cost'') (field c ''spend'')) (Num (Fin 0)))
     \<and> clicks_cell r = LocaleString (js_or (field c ''clicks'') (Num (Fin 0)))
     \<and> (\<exists>n. js_or (field c ''ctr'') (Num (Fin 0)) = Num n \<and> ctr_cell r = Fixed 2 n)
     \<and> conversions_cell r = LocaleString (js_or (field c ''conversions'') (Num (Fin 0)))
     \<and> (c ''cost'' = None \<longrightarrow> spend_cell r = LocaleString (js_or (field c ''spend'') (Num (Fin 0))))
     \<and> (c ''cost'' = None \<longrightarrow> c ''spend'' = None \<longrightarrow> spend_cell r = LocaleString (Num (Fin 0)))
     \<and> (c ''clicks'' = None \<longrightarrow> clicks_cell r = LocaleString (Num (Fin 0)))
     \<and> (c ''ctr'' = None \<longrightarrow> ctr_cell r = Fixed 2 (Fin 0))
     \<and> (c ''conversions'' = None \<longrightarrow> conversions_cell r = LocaleString (Num (Fin 0)))"
    using n ctr0 by (simp add: renderRow_unfold js_or_absent)
  have cost: "field (withPlatform p c) ''cost''
        = js_or (js_or (field c ''cost'') (field c ''spend'')) (Num (Fin 0))"
    by (simp add: field_def withPlatform_cost)
  have cost1: "c ''cost'' = None \<longrightarrow>
        field (withPlatform p c) ''cost'' = js_or (field c ''spend'') (Num (Fin 0))"
    by (simp add: cost js_or_absent)
  have cost2: "c ''cost'' = None \<longrightarrow> c ''spend'' = None \<longrightarrow>
        field (withPlatform p c) ''cost'' = Num (Fin 0)"
    by (simp add: cost js_or_absent)
  have plat: "field (withPlatform p c) ''platform'' = Str p"
    by (simp add: field_def withPlatform_platform)
  have other: "\<forall>k. k \<noteq> ''platform'' \<and> k \<noteq> ''cost'' \<longrightarrow> withPlatform p c k = c k"
    by (simp add: withPlatform_other)
  have same: "field (withPlatform p c) ''spend'' = field c ''spend''"
             "field (withPlatform p c) ''clicks'' = field c ''clicks''"
             "field (withPlatform p c) ''ctr'' = field c ''ctr''"
             "field (withPlatform p c) ''conversions'' = field c ''conversions''"
    by (simp_all add: field_def withPlatform_other)
  have mapped: "\<exists>r'. renderRow (withPlatform p c) = Inr r'
        \<and> spend_cell r' = LocaleString (js_or (js_or (field c ''cost'') (field c ''spend'')) (Num (Fin 0)))
        \<and> clicks_cell r' = LocaleString (js_or (field c ''clicks'') (Num (Fin 0)))
        \<and> (\<exists>n. js_or (field c ''ctr'') (Num (Fin 0)) = Num n \<and> ctr_cell r' = Fixed 2 n)
        \<and> conversions_cell r' = LocaleString (js_or (field c ''conversions'') (Num (Fin 0)))"
    using n by (simp add: renderRow_unfold same cost js_or_cost_idem)
  have rows: "(\<forall>c' \<in> set cs. truthy (field c' ''ctr'') \<longrightarrow> is_number (field c' ''ctr'')) \<longrightarrow>
        (\<exists>rs. renderRows cs = Inr rs \<and> length rs = length cs)"
    using renderRows_total by blast
  from raw cost cost1 cost2 plat other mapped rows show ?thesis by blast
qed

text \<open>
  A record with a name and a spend only: every other cell is 0, and tagging it sets its
  \<open>cost\<close> to the spend.
\<close>

theorem renderRow_total_witness:
  "(\<exists>r. renderRow (map_of [(''name'', Str ''Spring Sale''), (''spend'', Num (Fin 12.5))]) = Inr r
     \<and> spend_cell r = LocaleString (Num (Fin 12.5))
     \<and> clicks_cell r = LocaleString (Num (Fin 0))
     \<and> ctr_cell r = Fixed 2 (Fin 0)
     \<and> conversions_cell r = LocaleString (Num (Fin 0)))
   \<and> field (withPlatform ''Meta Ads'' (map_of [(''name'', Str ''Spring Sale''), (''spend'', Num (Fin 12.5))]))
        ''cost'' = Num (Fin 12.5)"
proof -
  let ?c = "map_of [(''name'', Str ''Spring Sale''), (''spend'', Num (Fin 12.5))]"
  have h: "truthy (field ?c ''ctr'') \<longrightarrow> is_number (field ?c ''ctr'')" by (simp add: field_def)
  note t = renderRow_total [OF h, of "''Meta Ads''" "[]"]
  from t [THEN conjunct1] have 1: "\<exists>r. renderRow ?c = Inr r
     \<and> spend_cell r = LocaleString (Num (Fin 12.5))
     \<and> clicks_cell r = LocaleString (Num (Fin 0))
     \<and> ctr_cell r = Fixed 2 (Fin 0)
     \<and> conversions_cell r = LocaleString (Num (Fin 0))"
    by (auto simp add: field_def js_or_def)
  from t [THEN conjunct2, THEN conjunct1]
  have 2: "field (withPlatform ''Meta Ads'' ?c) ''cost'' = Num (Fin 12.5)"
    by (simp add: field_def js_or_def)
  from 1 2 show ?thesis by blast
qed

text \<open>
  A record whose \<open>ctr\<close> is the string \<open>'3.49'\<close>: the string is truthy and has no
  \<open>toFixed\<close>, so the row raises a TypeError, and so does the table of a response
  that holds this one Google Ads campaign.
\<close>

theorem renderRow_string_ctr_counterexample:
  "renderRow (map_of [(''name'', Str ''Spring Sale''), (''ctr'', Str ''3.49'')]) = Inl TypeError
   \<and> campaignTable (Some \<lparr> key_metrics = None,
        google_ads = Some \<lparr> campaigns = Some [map_of [(''name'', Str ''Spring Sale''),
                                                         (''ctr'', Str ''3.49'')]],
                             historical_data = None \<rparr>,
        meta_ads = None, analytics = None \<rparr>) = Inl TypeError"
  by (simp add: campaignTable_def campaignsToShow_def apiCampaigns_def googleAdsCampaigns_def
        metaAdsCampaigns_def or_empty_def renderRow_unfold field_def js_or_def withPlatform_def)

text \<open>
  Claim C7, as amended. The status badge has the running colour exactly when the status
  is \<open>'ENABLED'\<close> or \<open>'ACTIVE'\<close>, and the other colour otherwise. Its text is the
  campaign's own status when that is truthy, so every non-empty status string is shown
  as it is, and \<open>'UNKNOWN'\<close> when the status is absent or falsy: an empty status
  string is shown as \<open>'UNKNOWN'\<close> too. A rendered row carries this badge.
\<close>

theorem statusBadge_running_iff:
  "(badge_bg (statusBadge c) = ''#48bb78'')
      = (field c ''status'' = Str ''ENABLED'' \<or> field c ''status'' = Str ''ACTIVE'')
   \<and> (badge_bg (statusBadge c) = ''#48bb78'' \<or> badge_bg (statusBadge c) = ''#f56565'')
   \<and> badge_text (statusBadge c)
      = (if truthy (field c ''status'') then field c ''status'' else Str ''UNKNOWN'')
   \<and> (c ''status'' = None \<longrightarrow> badge_text (statusBadge c) = Str ''UNKNOWN'')
   \<and> (\<forall>s. s \<noteq> [] \<longrightarrow> c ''status'' = Some (Str s) \<longrightarrow> badge_text (statusBadge c) = Str s)
   \<and> (\<forall>r. renderRow c = Inr r \<longrightarrow> status_cell r = statusBadge c)"
  by (auto simp: statusBadge_def js_or_def field_def renderRow_unfold split: sum.splits)

theorem statusBadge_running_iff_witness:
  "badge_bg (statusBadge (map_of [(''status'', Str ''ACTIVE'')])) = ''#48bb78''
   \<and> badge_text (statusBadge (map_of [(''status'', Str ''ACTIVE'')])) = Str ''ACTIVE''
   \<and> badge_bg (statusBadge (map_of [(''status'', Str ''PAUSED'')])) = ''#f56565''
   \<and> badge_text (statusBadge (map_of [(''name'', Str ''x'')])) = Str ''UNKNOWN''"
  using statusBadge_running_iff [of "map_of [(''status'', Str ''ACTIVE'')]"]
        statusBadge_running_iff [of "map_of [(''status'', Str ''PAUSED'')]"]
        statusBadge_running_iff [of "map_of [(''name'', Str ''x'')]"]
  by (auto simp add: field_def)

text \<open>
  A campaign whose status is the empty string: the status is present, and the badge
  shows \<open>'UNKNOWN'\<close>, not the campaign's own (empty) status.
\<close>

theorem statusBadge_empty_status_counterexample:
  "map_of [(''status'', Str '''')] ''status'' = Some (Str '''')
   \<and> badge_text (statusBadge (map_of [(''status'', Str '''')])) = Str ''UNKNOWN''"
  by (simp add: statusBadge_def js_or_def field_def)








text \<open>The table block exists for the role \<open>'admin'\<close> and for no other role.\<close>

lemma adminTable_admin_only:
  "adminTable role k = (if role = Str ''admin'' then Some (campaignTable k) else None)
   \<and> (adminTable role k = None) = (role \<noteq> Str ''admin'')"
  by (simp add: adminTable_def)



section \<open>Properties of the role projection\<close>

lemma getRoleMetrics_no_data:
  "getRoleMetrics rnd None role = []
   \<and> (key_metrics k = None \<longrightarrow> getRoleMetrics rnd (Some k) role = [])"
  by (simp add: getRoleMetrics_def)

text \<open>
  Claim C6. For a response with \<open>key_metrics\<close>, the cards of role \<open>finance\<close> show
  the fields \<open>total_ad_spend\<close>, \<open>total_revenue\<close>, \<open>roas\<close> and
  \<open>cost_per_conversion\<close>; those of role \<open>marketing\<close> show \<open>total_impressions\<close>,
  \<open>total_clicks\<close>, \<open>ctr\<close>, \<open>total_sessions\<close>, \<open>bounce_rate\<close> and
  \<open>conversion_rate\<close>; those of every other role, \<open>admin\<close> among them, show
  \<open>total_ad_spend\<close>, \<open>total_revenue\<close>, \<open>total_impressions\<close>,
  \<open>total_clicks\<close>, \<open>total_sessions\<close> and \<open>roas\<close>. The ROAS card is in both the
  admin and the finance projection. No other field is read: two \<open>key_metrics\<close>
  that agree on a role's fields give the same cards.
\<close>

theorem getRoleMetrics_fields:
  assumes "key_metrics k = Some m"
  shows "map val (getRoleMetrics rnd (Some k) (Str ''finance''))
           = map (field m) [''total_ad_spend'', ''total_revenue'', ''roas'', ''cost_per_conversion'']
   \<and> map val (getRoleMetrics rnd (Some k) (Str ''marketing''))
           = map (field m) [''total_impressions'', ''total_clicks'', ''ctr'', ''total_sessions'',
                            ''bounce_rate'', ''conversion_rate'']
   \<and> (role \<noteq> Str ''finance'' \<and> role \<noteq> Str ''marketing'' \<longrightarrow>
        map val (getRoleMetrics rnd (Some k) role)
           = map (field m) [''total_ad_spend'', ''total_revenue'', ''total_impressions'',
                            ''total_clicks'', ''total_sessions'', ''roas''])
   \<and> map val (getRoleMetrics rnd (Some k) (Str ''admin''))
           = map (field m) [''total_ad_spend'', ''total_revenue'', ''total_impressions'',
                            ''total_clicks'', ''total_sessions'', ''roas'']
   \<and> (''ROAS'', field m ''roas'') \<in> set (map (\<lambda>c. (title c, val c)) (getRoleMetrics rnd (Some k) (Str ''admin'')))
   \<and> (''ROAS'', field m ''roas'') \<in> set (map (\<lambda>c. (title c, val c)) (getRoleMetrics rnd (Some k) (Str ''finance'')))
   \<and> (\<forall>m'. (\<forall>n \<in> set [''total_ad_spend'', ''total_revenue'', ''roas'', ''cost_per_conversion''].
                 field m' n = field m n) \<longrightarrow>
          getRoleMetrics rnd (Some (k\<lparr>key_metrics := Some m'\<rparr>)) (Str ''finance'')
            = getRoleMetrics rnd (Some k) (Str ''finance''))
   \<and> (\<forall>m'. (\<forall>n \<in> set [''total_impressions'', ''total_clicks'', ''ctr'', ''total_sessions'',
                          ''bounce_rate'', ''conversion_rate''].
                 field m' n = field m n) \<longrightarrow>
          getRoleMetrics rnd (Some (k\<lparr>key_metrics := Some m'\<rparr>)) (Str ''marketing'')
            = getRoleMetrics rnd (Some k) (Str ''marketing''))
   \<and> (\<forall>m'. role \<noteq> Str ''finance'' \<and> role \<noteq> Str ''marketing'' \<and>
             (\<forall>n \<in> set [''total_ad_spend'', ''total_revenue'', ''total_impressions'',
                          ''total_clicks'', ''total_sessions'', ''roas''].
                 field m' n = field m n) \<longrightarrow>
          getRoleMetrics rnd (Some (k\<lparr>key_metrics := Some m'\<rparr>)) role
            = getRoleMetrics rnd (Some k) role)"
  using assms by (simp add: getRoleMetrics_def Let_def)

text \<open>
  A response whose \<open>key_metrics\<close> hold three of the fields: the finance cards and the
  admin cards, a missing field reading as \<open>undefined\<close>.
\<close>

theorem getRoleMetrics_fields_witness:
  "map val (getRoleMetrics 0.5
       (Some \<lparr> key_metrics = Some (map_of [(''total_ad_spend'', Num (Fin 100)),
                 (''total_revenue'', Num (Fin 250)), (''roas'', Num (Fin 2.5))]),
               google_ads = None, meta_ads = None, analytics = None \<rparr>) (Str ''finance''))
     = [Num (Fin 100), Num (Fin 250), Num (Fin 2.5), Undefined]
   \<and> map val (getRoleMetrics 0.5
       (Some \<lparr> key_metrics = Some (map_of [(''total_ad_spend'', Num (Fin 100)),
                 (''total_revenue'', Num (Fin 250)), (''roas'', Num (Fin 2.5))]),
               google_ads = None, meta_ads = None, analytics = None \<rparr>) (Str ''admin''))
     = [Num (Fin 100), Num (Fin 250), Undefined, Undefined, Undefined, Num (Fin 2.5)]"
proof -
  let ?m = "map_of [(''total_ad_spend'', Num (Fin 100)),
                 (''total_revenue'', Num (Fin 250)), (''roas'', Num (Fin 2.5))]"
  let ?k = "\<lparr> key_metrics = Some ?m, google_ads = None, meta_ads = None, analytics = None \<rparr>"
  have km: "key_metrics ?k = Some ?m" by simp
  note all = getRoleMetrics_fields [OF km, of "0.5" "Str ''admin''"]
  note finance = all [THEN conjunct1]
  note admin = all [THEN conjunct2, THEN conjunct2, THEN conjunct2, THEN conjunct1]
  show ?thesis using finance admin by (simp add: field_def)
qed

section \<open>Properties of the charts\<close>

text \<open>\<open>slice(-n)\<close> for a positive \<open>n\<close> keeps the last \<open>n\<close> elements, or all of them.\<close>

lemma slice_from_last: "0 < n \<Longrightarrow> slice_from (- n) xs = drop (length xs - nat n) xs"
proof -
  assume n: "0 < n"
  have "nat (max (int (length xs) + - n) 0) = length xs - nat n"
    using n by (simp add: max_def nat_diff_distrib)
  with n show ?thesis by (simp add: slice_from_def Let_def)
qed

lemma last30Days_eq: "last30Days k = rev (drop (length (chartData k) - 30) (chartData k))"
  using slice_from_last[of 30 "chartData k"] by (simp add: last30Days_def)

text \<open>
  Claim C10. The plotted series is the last \<open>min(30, n)\<close> entries of the Google Ads
  \<open>historical_data\<close> in reversed order: entry \<open>i\<close> of the series is entry
  \<open>n - 1 - i\<close> of the data. It is empty when \<open>historical_data\<close> is absent. Every
  chart the page renders for a role is fed this one series, at least one chart is
  rendered, and the charts do not depend on the Meta Ads or analytics sources.
\<close>

theorem last30Days_series:
  "last30Days k = rev (drop (length (chartData k) - 30) (chartData k))
   \<and> length (last30Days k) = min 30 (length (chartData k))
   \<and> (\<forall>i < min 30 (length (chartData k)).
         last30Days k ! i = chartData k ! (length (chartData k) - 1 - i))
   \<and> chartData k = or_empty (Option.bind (Option.bind k google_ads) historical_data)
   \<and> (Option.bind (Option.bind k google_ads) historical_data = None \<longrightarrow> last30Days k = [])
   \<and> charts role k \<noteq> []
   \<and> (\<forall>ch \<in> set (charts role k). chart_data ch = last30Days k)
   \<and> (\<forall>k0 m a. k = Some k0 \<longrightarrow>
         charts role (Some (k0\<lparr>meta_ads := m, analytics := a\<rparr>)) = charts role k)"
proof -
  let ?h = "chartData k"
  have eq: "last30Days k = rev (drop (length ?h - 30) ?h)" by (rule last30Days_eq)
  have len: "length (last30Days k) = min 30 (length ?h)" by (simp add: eq)
  have nth: "\<forall>i < min 30 (length ?h). last30Days k ! i = ?h ! (length ?h - 1 - i)"
  proof (intro allI impI)
    fix i assume i: "i < min 30 (length ?h)"
    then have "rev (drop (length ?h - 30) ?h) ! i
                 = drop (length ?h - 30) ?h ! (length (drop (length ?h - 30) ?h) - Suc i)"
      by (intro rev_nth) (simp, arith)
    also have "\<dots> = ?h ! (length ?h - 30 + (length (drop (length ?h - 30) ?h) - Suc i))"
      by (intro nth_drop) simp
    also have "length ?h - 30 + (length (drop (length ?h - 30) ?h) - Suc i) = length ?h - 1 - i"
      using i by (simp, arith)
    finally show "last30Days k ! i = ?h ! (length ?h - 1 - i)" by (simp add: eq)
  qed
  have absent: "Option.bind (Option.bind k google_ads) historical_data = None \<longrightarrow> last30Days k = []"
    by (simp add: last30Days_def chartData_def or_empty_def slice_from_def)
  have ne: "charts role k \<noteq> []" by (simp add: charts_def)
  have all: "\<forall>ch \<in> set (charts role k). chart_data ch = last30Days k"
    by (auto simp: charts_def)
  have indep: "\<forall>k0 m a. k = Some k0 \<longrightarrow>
         charts role (Some (k0\<lparr>meta_ads := m, analytics := a\<rparr>)) = charts role k"
    by (simp add: charts_def last30Days_def chartData_def)
  show ?thesis using eq len nth absent ne all indep by (simp add: chartData_def)
qed

text \<open>
  Two days of data are plotted newest first; of 45 days, 30 are plotted; without a
  response nothing is.
\<close>

theorem last30Days_series_witness:
  "last30Days (Some \<lparr> key_metrics = None,
       google_ads = Some \<lparr> campaigns = None,
          historical_data = Some [map_of [(''date'', Str ''2024-01-01'')],
                                  map_of [(''date'', Str ''2024-01-02'')]] \<rparr>,
       meta_ads = None, analytics = None \<rparr>)
     = [map_of [(''date'', Str ''2024-01-02'')], map_of [(''date'', Str ''2024-01-01'')]]
   \<and> length (last30Days (Some \<lparr> key_metrics = None,
       google_ads = Some \<lparr> campaigns = None,
          historical_data = Some (replicate 45 (map_of [(''date'', Str ''2024-01-01'')])) \<rparr>,
       meta_ads = None, analytics = None \<rparr>)) = 30
   \<and> last30Days None = []"
  using last30Days_series [of "Some \<lparr> key_metrics = None,
       google_ads = Some \<lparr> campaigns = None,
          historical_data = Some [map_of [(''date'', Str ''2024-01-01'')],
                                  map_of [(''date'', Str ''2024-01-02'')]] \<rparr>,
       meta_ads = None, analytics = None \<rparr>" "Str ''admin''"]
     last30Days_series [of "Some \<lparr> key_metrics = None,
       google_ads = Some \<lparr> campaigns = None,
          historical_data = Some (replicate 45 (map_of [(''date'', Str ''2024-01-01'')])) \<rparr>,
       meta_ads = None, analytics = None \<rparr>" "Str ''admin''"]
     last30Days_series [of None "Str ''admin''"]
  by (simp add: or_empty_def)

section \<open>Properties of \<open>formatValue\<close>\<close>


text \<open>
  When \<open>formatValue\<close> raises, on any JSON value: the conversion of an array or object
  to a primitive raises, or the type is \<open>'percentage'\<close> or \<open>'decimal'\<close> and the
  value is a boolean or an array that converts to a number.
\<close>

lemma formatValue_raises_iff:
  "(\<exists>e. formatValue v t = Inl e)
     = (toString_raises v
        \<or> ((t = Str ''percentage'' \<or> t = Str ''decimal'')
            \<and> ((\<exists>b. v = Prim (Bool b)) \<or> (\<exists>xs. v = Array xs \<and> element_is_numeric v))))"
  by (cases "(v, t)" rule: formatValue.cases) (auto split: option.splits)

text \<open>
  The empty array and a one-number array convert to a number: they raise for
  \<open>'percentage'\<close> and \<open>'decimal'\<close> and are formatted for \<open>'currency'\<close>. A
  two-number array and an object without an own \<open>toString\<close> convert to \<open>NaN\<close> and
  are returned as they came; an object with an own \<open>toString\<close> raises.
\<close>

lemma formatValue_array_examples:
  "formatValue (Array []) (Str ''percentage'') = Inl TypeError
   \<and> formatValue (Array [Prim (Num (Fin 5))]) (Str ''decimal'') = Inl TypeError
   \<and> formatValue (Array [Prim (Num (Fin 5))]) (Str ''currency'')
       = Inr (Currency0 (CoercedFrom (Array [Prim (Num (Fin 5))])))
   \<and> formatValue (Array [Prim (Num (Fin 1)), Prim (Num (Fin 2))]) (Str ''percentage'')
       = Inr (Unchanged (Array [Prim (Num (Fin 1)), Prim (Num (Fin 2))]))
   \<and> formatValue (Object [(''total'', Prim (Num (Fin 5)))]) (Str ''percentage'')
       = Inr (Unchanged (Object [(''total'', Prim (Num (Fin 5)))]))
   \<and> formatValue (Object [(''toString'', Prim Null)]) (Str ''count'') = Inl TypeError"
  by (simp add: formatNumber_def)




section \<open>Properties of the modelled backend\<close>

lemma guarded_ratio_value: "guarded_ratio x y k = Inr (if y = 0 then 0 else x / y * k)"
  by (simp add: guarded_ratio_def divide_def)

lemma derive_value:
  "derive t = Inr \<lparr> total_ad_spend = sum_ad_spend t,
                total_revenue = sum_revenue t,
                total_impressions = sum_impressions t,
                total_clicks = sum_clicks t,
                total_sessions = sum_sessions t,
                roas = (if sum_ad_spend t = 0 then 0 else sum_revenue t / sum_ad_spend t),
                ctr = (if sum_impressions t = 0 then 0 else sum_clicks t / sum_impressions t * 100),
                cost_per_conversion = (if sum_conversions t = 0 then 0 else sum_ad_spend t / sum_conversions t),
                bounce_rate = reported_bounce_rate t,
                conversion_rate = (if sum_clicks t = 0 then 0 else sum_conversions t / sum_clicks t * 100) \<rparr>"
  by (simp add: derive_def guarded_ratio_value)

lemma combine_scenario:
  "combine scenario_fetch =
     \<lparr> sum_ad_spend = 100, sum_revenue = 250, sum_impressions = 0, sum_clicks = 0,
       sum_conversions = 0, sum_sessions = 1000, reported_bounce_rate = 45.2 \<rparr>"
  by (simp add: combine_def present_def scenario_fetch_def List.map_filter_simps)

lemma aggregate_scenario: "aggregate 1000 scenario_fetch = Inr scenario_snapshot"
  by (simp add: aggregate_def combine_scenario derive_value scenario_snapshot_def)
     (simp add: all_failed_def scenario_fetch_def)

lemma aggregate_Inl_iff:
  "aggregate now f = Inl e \<longleftrightarrow> all_failed f \<and> e = AllSourcesUnavailable"
  by (auto simp: aggregate_def derive_value)

lemma aggregate_cases:
  obtains "all_failed f" "aggregate now f = Inl AllSourcesUnavailable"
  | snap where "\<not> all_failed f" "aggregate now f = Inr snap"
  by (cases "all_failed f") (auto simp: aggregate_def derive_value)

lemma cache_get_put:
  "cache_get t (cache_put t0 s c)
     = (if t - t0 < TTL then Some s else None, cache_put t0 s c)"
  by (simp add: cache_get_def cache_put_def)

text \<open>After \<open>clear\<close>, \<open>get\<close> signals Empty at every time.\<close>

lemma cache_get_clear: "fst (cache_get t (cache_clear c)) = None"
  by (simp add: cache_get_def cache_clear_def)

text \<open>
  Claim C2. For every combination of totals the derivation of the ratios succeeds, it
  never fails on a zero divisor, and \<open>ctr\<close> is clicks over impressions times 100,
  \<open>roas\<close> is revenue over ad spend, \<open>cost_per_conversion\<close> is ad spend over
  conversions and \<open>conversion_rate\<close> is conversions over clicks times 100, each of
  them 0 when its denominator is 0.
\<close>

theorem derive_ratios_zero_guarded:
  "\<exists>km. derive t = Inr km
     \<and> ctr km = (if sum_impressions t = 0 then 0 else sum_clicks t / sum_impressions t * 100)
     \<and> roas km = (if sum_ad_spend t = 0 then 0 else sum_revenue t / sum_ad_spend t)
     \<and> cost_per_conversion km
          = (if sum_conversions t = 0 then 0 else sum_ad_spend t / sum_conversions t)
     \<and> conversion_rate km
          = (if sum_clicks t = 0 then 0 else sum_conversions t / sum_clicks t * 100)"
  by (simp add: derive_value)

text \<open>
  The scenario of the specification: impressions, clicks and conversions are all 0, so
  three ratios are 0, and \<open>roas\<close> is 250 / 100.
\<close>

theorem derive_ratios_zero_guarded_witness:
  "\<exists>km. derive (combine scenario_fetch) = Inr km
     \<and> ctr km = 0 \<and> roas km = 2.5 \<and> cost_per_conversion km = 0 \<and> conversion_rate km = 0
     \<and> bounce_rate km = 45.2 \<and> total_revenue km = 250"
  using derive_ratios_zero_guarded [of "combine scenario_fetch"]
  by (auto simp: derive_value combine_scenario)

text \<open>
  Claim C3. The TTL is 300 seconds. A snapshot stored at \<open>t0\<close> is returned by
  \<open>get\<close> at every time \<open>t\<close> with \<open>t - t0 < TTL\<close>; at every \<open>t\<close> with
  \<open>t - t0 \<ge> TTL\<close> \<open>get\<close> signals Empty and the cache still holds the stale
  snapshot. Accordingly an unforced \<open>getSnapshot\<close> is a hit before the boundary,
  without a fetch, and from the boundary on it counts a miss and fetches: it returns the
  merge of the providers' answers, or the stale snapshot when every provider fails.
\<close>

theorem cache_ttl_boundary:
  "TTL = 300
   \<and> (t - t0 < TTL \<longrightarrow> cache_get t (cache_put t0 s c) = (Some s, cache_put t0 s c))
   \<and> (t - t0 \<ge> TTL \<longrightarrow>
        cache_get t (cache_put t0 s c) = (None, cache_put t0 s c)
        \<and> entry (snd (cache_get t (cache_put t0 s c))) = Some s)
   \<and> isExpired t (cache_put t0 s c) = (t - t0 \<ge> TTL)
   \<and> (t - t0 < TTL \<longrightarrow>
        fst (getSnapshot False t f (cache_put t0 s c)) = Inr s
        \<and> miss_count (snd (getSnapshot False t f (cache_put t0 s c))) = miss_count c)
   \<and> (t - t0 \<ge> TTL \<longrightarrow>
        miss_count (snd (getSnapshot False t f (cache_put t0 s c))) = miss_count c + 1
        \<and> (\<not> all_failed f \<longrightarrow> fst (getSnapshot False t f (cache_put t0 s c)) = aggregate t f)
        \<and> (all_failed f \<longrightarrow> fst (getSnapshot False t f (cache_put t0 s c)) = Inr s))"
proof -
  have ttl: "TTL = 300" by (simp add: TTL_def)
  have fresh: "t - t0 < TTL \<longrightarrow> cache_get t (cache_put t0 s c) = (Some s, cache_put t0 s c)"
    by (simp add: cache_get_put)
  have stale: "t - t0 \<ge> TTL \<longrightarrow>
        cache_get t (cache_put t0 s c) = (None, cache_put t0 s c)
        \<and> entry (snd (cache_get t (cache_put t0 s c))) = Some s"
    by (simp add: cache_get_put) (simp add: cache_put_def)
  have expired: "isExpired t (cache_put t0 s c) = (t - t0 \<ge> TTL)"
    by (simp add: isExpired_def cache_put_def)
  have hit: "t - t0 < TTL \<longrightarrow>
        fst (getSnapshot False t f (cache_put t0 s c)) = Inr s
        \<and> miss_count (snd (getSnapshot False t f (cache_put t0 s c))) = miss_count c"
    by (simp add: getSnapshot_def cache_get_put) (simp add: cache_put_def)
  have miss: "t - t0 \<ge> TTL \<longrightarrow>
        miss_count (snd (getSnapshot False t f (cache_put t0 s c))) = miss_count c + 1
        \<and> (\<not> all_failed f \<longrightarrow> fst (getSnapshot False t f (cache_put t0 s c)) = aggregate t f)
        \<and> (all_failed f \<longrightarrow> fst (getSnapshot False t f (cache_put t0 s c)) = Inr s)"
  proof (cases rule: aggregate_cases[of f t])
    case 1
    then show ?thesis
      by (simp add: getSnapshot_def cache_get_put Let_def) (simp add: cache_put_def)
  next
    case (2 snap)
    then show ?thesis
      by (simp add: getSnapshot_def cache_get_put Let_def) (simp add: cache_put_def)
  qed
  from ttl fresh stale expired hit miss show ?thesis by blast
qed

text \<open>
  A snapshot stored at second 1000 is served at second 1299 and not at second 1300,
  where the cache still holds it.
\<close>

theorem cache_ttl_boundary_witness:
  "cache_get 1299 (cache_put 1000 scenario_snapshot empty_cache)
     = (Some scenario_snapshot, cache_put 1000 scenario_snapshot empty_cache)
   \<and> cache_get 1300 (cache_put 1000 scenario_snapshot empty_cache)
     = (None, cache_put 1000 scenario_snapshot empty_cache)
   \<and> entry (snd (cache_get 1300 (cache_put 1000 scenario_snapshot empty_cache)))
     = Some scenario_snapshot"
proof -
  have a: "(1299::int) - 1000 < TTL" by (simp add: TTL_def)
  have b: "(1300::int) - 1000 \<ge> TTL" by (simp add: TTL_def)
  from a cache_ttl_boundary [of 1299 1000 scenario_snapshot empty_cache no_fetch]
  have 1: "cache_get 1299 (cache_put 1000 scenario_snapshot empty_cache)
             = (Some scenario_snapshot, cache_put 1000 scenario_snapshot empty_cache)"
    by blast
  from b cache_ttl_boundary [of 1300 1000 scenario_snapshot empty_cache no_fetch]
  have 2: "cache_get 1300 (cache_put 1000 scenario_snapshot empty_cache)
             = (None, cache_put 1000 scenario_snapshot empty_cache)
           \<and> entry (snd (cache_get 1300 (cache_put 1000 scenario_snapshot empty_cache)))
             = Some scenario_snapshot"
    by blast
  from 1 2 show ?thesis by blast
qed

text \<open>
  Claim C4. \<open>getSnapshot\<close> fails with \<open>AllSourcesUnavailable\<close> if and only if every
  provider fails and the cache holds no snapshot, and it fails in no other way. When a
  provider succeeds or the cache holds a snapshot it returns a snapshot. When every
  provider fails and the cache holds a snapshot, that snapshot is returned and stays in
  the cache, and the cache statistics report its age, which is at least the TTL when the
  entry has expired.
\<close>

theorem getSnapshot_fails_iff:
  "(fst (getSnapshot force now f c) = Inl AllSourcesUnavailable) = (all_failed f \<and> entry c = None)
   \<and> (\<forall>e. fst (getSnapshot force now f c) = Inl e \<longrightarrow> e = AllSourcesUnavailable)
   \<and> (\<not> all_failed f \<or> entry c \<noteq> None \<longrightarrow> (\<exists>s. fst (getSnapshot force now f c) = Inr s))
   \<and> (\<forall>stale. all_failed f \<and> entry c = Some stale \<longrightarrow>
        fst (getSnapshot force now f c) = Inr stale
        \<and> entry (snd (getSnapshot force now f c)) = Some stale
        \<and> age_seconds (stats now (snd (getSnapshot force now f c))) = Some (now - created_at c)
        \<and> (isExpired now c \<longrightarrow>
              (\<exists>age. age_seconds (stats now (snd (getSnapshot force now f c))) = Some age
                     \<and> age \<ge> ttl_seconds (stats now (snd (getSnapshot force now f c))))))"
proof (cases rule: aggregate_cases[of f now])
  case 1
  then show ?thesis
    by (cases "entry c")
       (auto simp: getSnapshot_def cache_get_def Let_def stats_def isExpired_def)
next
  case (2 snap)
  then show ?thesis
    by (cases "entry c")
       (auto simp: getSnapshot_def cache_get_def Let_def stats_def isExpired_def)
qed

text \<open>
  With an empty cache a round in which every provider fails is a failure and the
  scenario round is not; with the scenario snapshot cached at second 1000, the failing
  round at second 1400 returns it, 400 seconds old.
\<close>

theorem getSnapshot_fails_iff_witness:
  "fst (getSnapshot False 1000 no_fetch empty_cache) = Inl AllSourcesUnavailable
   \<and> fst (getSnapshot False 1000 scenario_fetch empty_cache) = Inr scenario_snapshot
   \<and> fst (getSnapshot False 1400 no_fetch (cache_put 1000 scenario_snapshot empty_cache))
       = Inr scenario_snapshot
   \<and> age_seconds (stats 1400 (snd (getSnapshot False 1400 no_fetch
         (cache_put 1000 scenario_snapshot empty_cache)))) = Some 400"
proof -
  have none: "all_failed no_fetch" by (simp add: all_failed_def no_fetch_def)
  have some: "\<not> all_failed scenario_fetch" by (simp add: all_failed_def scenario_fetch_def)
  have e0: "entry empty_cache = None" by (simp add: empty_cache_def)
  have e1: "entry (cache_put 1000 scenario_snapshot empty_cache) = Some scenario_snapshot"
           "created_at (cache_put 1000 scenario_snapshot empty_cache) = 1000"
    by (simp_all add: cache_put_def)
  have fresh: "fst (getSnapshot False 1000 scenario_fetch empty_cache) = Inr scenario_snapshot"
    by (simp add: getSnapshot_def cache_get_def e0 aggregate_scenario)
  show ?thesis
    using getSnapshot_fails_iff [of False 1000 no_fetch empty_cache]
          getSnapshot_fails_iff [of False 1400 no_fetch "cache_put 1000 scenario_snapshot empty_cache"]
          none some e0 e1 fresh
    by simp
qed

end
